theory Spec2Isabelle
  imports Main "HOL-Library.Sublist"
begin

section \<open>Python values\<close>

text \<open>
  A Python \<^verbatim>\<open>str\<close> is a sequence of Unicode code points, and \<^verbatim>\<open>len\<close> counts code
  points (Vietnamese text is mostly outside ASCII), so a string is a list of code points.
  \<open>lit\<close> embeds an ASCII literal.  \<^verbatim>\<open>bytes\<close> are lists of byte values.
\<close>

type_synonym pystr = "nat list"
type_synonym bytes = "nat list"
type_synonym path = pystr

definition lit :: "string \<Rightarrow> pystr" where
  "lit s = map of_char s"

text \<open>
  \<^verbatim>\<open>str.isspace\<close> per code point: the characters \<^verbatim>\<open>str.strip()\<close> removes when it is
  called without an argument.
\<close>

definition isspace :: "nat \<Rightarrow> bool" where
  "isspace c \<longleftrightarrow>
     (9 \<le> c \<and> c \<le> 13) \<or> (28 \<le> c \<and> c \<le> 32) \<or> c = 133 \<or> c = 160 \<or> c = 5760 \<or>
     (8192 \<le> c \<and> c \<le> 8202) \<or> c = 8232 \<or> c = 8233 \<or> c = 8239 \<or> c = 8287 \<or> c = 12288"

definition str_strip :: "pystr \<Rightarrow> pystr" where
  "str_strip s = rev (dropWhile isspace (rev (dropWhile isspace s)))"

text \<open>
  \<^verbatim>\<open>str.lower\<close> and \<^verbatim>\<open>str.upper\<close> on the ASCII and Latin-1 letters (which covers every
  key of the tables below); other code points are left as they are, where Python follows
  the Unicode case tables.  The general theorems below speak of the lower-cased string
  as a whole and never unfold these two functions; only the concrete examples, which are
  ASCII, evaluate them.
\<close>

definition lower_char :: "nat \<Rightarrow> nat" where
  "lower_char c =
     (if (65 \<le> c \<and> c \<le> 90) \<or> (192 \<le> c \<and> c \<le> 222 \<and> c \<noteq> 215) then c + 32 else c)"


definition str_lower :: "pystr \<Rightarrow> pystr" where
  "str_lower s = map lower_char s"


text \<open>
  Exceptions of the source, as values.  \<open>HTTPException\<close> carries the status code and the
  detail; \<open>UnsupportedFileFormatException\<close> is its subclass with status 415.
  \<open>ModelError\<close> stands for any other exception raised by a model or library call.
\<close>

datatype exn =
    HTTPException nat pystr
  | UnsupportedFileFormatException pystr
  | FileNotFoundError pystr
  | ValueError pystr
  | RuntimeError pystr
  | OSError pystr
  | IndexError pystr
  | AttributeError pystr
  | KeyError pystr
  | ModelError pystr

text \<open>
  \<^verbatim>\<open>str(n)\<close> for a status code, \<^verbatim>\<open>sep.join(xs)\<close>, \<^verbatim>\<open>repr\<close> of a list of plain strings, and
  \<open>str_exn\<close> for \<^verbatim>\<open>str(e)\<close> (an HTTP exception prints as its status code, a colon and its
  detail).  No theorem below depends on the text of a detail built with \<open>str_exn\<close>.
\<close>

function show_nat :: "nat \<Rightarrow> pystr" where
  "show_nat n = (if n < 10 then [48 + n] else show_nat (n div 10) @ [48 + n mod 10])"
  by pat_completeness auto
termination
  by (relation "measure id") auto

declare show_nat.simps [simp del]

fun str_join :: "pystr \<Rightarrow> pystr list \<Rightarrow> pystr" where
  "str_join sep [] = []"
| "str_join sep [x] = x"
| "str_join sep (x # y # ys) = x @ sep @ str_join sep (y # ys)"

definition repr_str :: "pystr \<Rightarrow> pystr" where
  "repr_str s = [39] @ s @ [39]"

definition repr_list :: "pystr list \<Rightarrow> pystr" where
  "repr_list xs = lit ''['' @ str_join (lit '', '') (map repr_str xs) @ lit '']''"

fun str_exn :: "exn \<Rightarrow> pystr" where
  "str_exn (HTTPException status_code detail) = show_nat status_code @ lit '': '' @ detail"
| "str_exn (UnsupportedFileFormatException detail) = show_nat 415 @ lit '': '' @ detail"
| "str_exn (FileNotFoundError m) = m"
| "str_exn (ValueError m) = m"
| "str_exn (RuntimeError m) = m"
| "str_exn (OSError m) = m"
| "str_exn (IndexError m) = m"
| "str_exn (AttributeError m) = m"
| "str_exn (KeyError m) = repr_str m"
| "str_exn (ModelError m) = m"


definition or_str :: "pystr option \<Rightarrow> pystr \<Rightarrow> pystr" where
  "or_str v d = (case v of None \<Rightarrow> d | Some s \<Rightarrow> if s \<noteq> [] then s else d)"

text \<open>
  \<^verbatim>\<open>pathlib.Path(p).suffix\<close>: the last component of the path (empty and \<^verbatim>\<open>.\<close> components
  dropped), from its last dot on, unless that dot is the first or the last character.
\<close>

fun split_on :: "nat \<Rightarrow> pystr \<Rightarrow> pystr list" where
  "split_on c [] = [[]]"
| "split_on c (x # xs) =
     (if x = c then [] # split_on c xs
      else (case split_on c xs of p # ps \<Rightarrow> (x # p) # ps | [] \<Rightarrow> [[x]]))"

fun rfind :: "nat \<Rightarrow> pystr \<Rightarrow> nat option" where
  "rfind c [] = None"
| "rfind c (x # xs) =
     (case rfind c xs of Some i \<Rightarrow> Some (Suc i) | None \<Rightarrow> if x = c then Some 0 else None)"

definition path_name :: "path \<Rightarrow> pystr" where
  "path_name p =
     (case filter (\<lambda>part. part \<noteq> [] \<and> part \<noteq> [46]) (split_on 47 p) of
        [] \<Rightarrow> [] | part # parts \<Rightarrow> last (part # parts))"

definition path_suffix :: "path \<Rightarrow> pystr" where
  "path_suffix p =
     (let name = path_name p
      in case rfind 46 name of
           None \<Rightarrow> []
         | Some i \<Rightarrow> if 0 < i \<and> Suc i < length name then drop i name else [])"

section \<open>Stores and files (backend/utils.py)\<close>

text \<open>
  The two process-wide dictionaries and the file system make up the state.  Only regular
  files are modelled: a path is present in \<open>fs\<close> exactly when \<^verbatim>\<open>os.path.exists\<close> holds.
  A Session is the dictionary stored under an id in \<^verbatim>\<open>transcript_storage\<close>; a key that is
  absent from it is \<open>None\<close>.  The services behind \<^verbatim>\<open>get_translation_service\<close>,
  \<^verbatim>\<open>get_voice_synthesis_service\<close> and \<^verbatim>\<open>get_transcript_service\<close> are passed to the
  functions that use them, already constructed.
\<close>

record audio_entry =
  a_id :: pystr
  a_filename :: "pystr option"
  a_content :: bytes
  a_content_type :: "pystr option"
  a_file_path :: path
  a_upload_time :: nat

record conversion_record =
  conv_audio_path :: path
  conv_text :: pystr
  conv_audio_url :: pystr

record session =
  raw_transcript :: "pystr option"
  corrected_transcript :: "pystr option"
  translated_transcript :: "pystr option"
  voice_conversions :: "(pystr \<rightharpoonup> conversion_record) option"
  status :: "pystr option"


record state =
  audio_storage :: "pystr \<rightharpoonup> audio_entry"
  transcript_storage :: "pystr \<rightharpoonup> session"
  fs :: "path \<rightharpoonup> bytes"

text \<open>
  What a request takes from its surroundings: the values of \<^verbatim>\<open>str(uuid.uuid4())\<close> and
  \<^verbatim>\<open>uuid.uuid4().hex\<close>, the clock, the upload directory, the exception raised by writing
  the upload to disk, if any, and the exception raised by \<^verbatim>\<open>os.makedirs\<close> on a directory,
  if any.
\<close>

record backend_env =
  uuid4 :: pystr
  uuid4_hex :: pystr
  now :: nat
  temp_audio_dir :: path
  write_error :: "exn option"
  makedirs :: "path \<Rightarrow> exn option"

record upload_file =
  uf_filename :: "pystr option"
  uf_content_type :: "pystr option"
  uf_read :: "exn + bytes"


definition supported_formats :: "pystr list" where
  "supported_formats = [lit ''.wav'', lit ''.mp3'', lit ''.m4a'', lit ''.flac'', lit ''.ogg'',
     lit ''.aac'', lit ''.webm'']"

definition check_audio_format :: "pystr \<Rightarrow> exn + unit" where
  "check_audio_format fname =
     (if \<not> list_ex (\<lambda>fmt. suffix fmt (str_lower fname)) supported_formats
      then Inl (UnsupportedFileFormatException
             (lit ''Unsupported file format. Supported formats: '' @
              str_join (lit '', '') supported_formats))
      else Inr ())"

text \<open>A write that raises leaves the files as they were (a partly written file is not
  modelled); the store is only updated after the write.\<close>

definition save_audio_in_memory_and_disk ::
  "backend_env \<Rightarrow> state \<Rightarrow> upload_file \<Rightarrow> bytes \<Rightarrow> (exn + pystr) \<times> state" where
  "save_audio_in_memory_and_disk env st audio contents =
     (let audio_id = uuid4 env;
          file_extension = path_suffix (or_str (uf_filename audio) (lit ''audio.wav''));
          temp_file_path = temp_audio_dir env @ [47] @ audio_id @ file_extension
      in case write_error env of
           Some e \<Rightarrow> (Inl e, st)
         | None \<Rightarrow>
             (Inr audio_id,
              st\<lparr>fs := (fs st)(temp_file_path \<mapsto> contents),
                 audio_storage := (audio_storage st)(audio_id \<mapsto>
                   \<lparr>a_id = audio_id, a_filename = uf_filename audio, a_content = contents,
                    a_content_type = uf_content_type audio, a_file_path = temp_file_path,
                    a_upload_time = now env\<rparr>)\<rparr>))"

section \<open>Language Guard (backend/utils.py)\<close>

text \<open>
  What the detector \<^verbatim>\<open>fast_langdetect.detect\<close> returns is not fixed by the source: a value
  is a \<^verbatim>\<open>str\<close>, or an object of another type, given by the name of its type (the library
  returns a \<^verbatim>\<open>dict\<close> with the keys \<^verbatim>\<open>lang\<close> and \<^verbatim>\<open>score\<close>).  Such an object is equal to
  no string, and \<^verbatim>\<open>.upper()\<close> on it raises \<^verbatim>\<open>AttributeError\<close>.
\<close>

datatype pyvalue = Str pystr | Other pystr


text \<open>
  \<^verbatim>\<open>is_vietnamese_transcript\<close>.  The detector is a parameter that returns a value or
  raises; the second component of the result lists the texts the detector was called
  with.
\<close>

definition is_vietnamese_transcript ::
  "(pystr \<Rightarrow> exn + pyvalue) \<Rightarrow> pystr \<Rightarrow> (bool \<times> pyvalue) \<times> pystr list" where
  "is_vietnamese_transcript detect transcript =
     (if transcript = [] \<or> length (str_strip transcript) < 10
      then ((False, Str (lit ''text_too_short'')), [])
      else (case detect (str_strip transcript) of
              Inr detected_lang \<Rightarrow>
                ((detected_lang \<in> set [Str (lit ''VI''), Str (lit ''VIE'')], detected_lang),
                 [str_strip transcript])
            | Inl e \<Rightarrow> ((False, Str (lit ''detection_failed'')), [str_strip transcript])))"

section \<open>Upload (backend/routers/audios.py)\<close>

record upload_response =
  up_id :: pystr
  up_filename :: "pystr option"
  up_message :: pystr
  up_size :: nat

text \<open>The body of the \<^verbatim>\<open>try\<close> block of \<^verbatim>\<open>upload_audio\<close>, then its \<^verbatim>\<open>except\<close> clauses.\<close>

definition upload_audio_try ::
  "backend_env \<Rightarrow> state \<Rightarrow> upload_file \<Rightarrow> (exn + upload_response) \<times> state" where
  "upload_audio_try env st file =
     (case check_audio_format (or_str (uf_filename file) []) of
        Inl e \<Rightarrow> (Inl e, st)
      | Inr _ \<Rightarrow>
          (case uf_read file of
             Inl e \<Rightarrow> (Inl e, st)
           | Inr contents \<Rightarrow>
               if length contents = 0
               then (Inl (HTTPException 400 (lit ''Empty file uploaded'')), st)
               else (case save_audio_in_memory_and_disk env st file contents of
                       (Inl e, st') \<Rightarrow> (Inl e, st')
                     | (Inr audio_id, st') \<Rightarrow>
                         (Inr \<lparr>up_id = audio_id, up_filename = uf_filename file,
                               up_message = lit ''Audio uploaded successfully'',
                               up_size = length contents\<rparr>, st'))))"

definition upload_audio ::
  "backend_env \<Rightarrow> state \<Rightarrow> upload_file \<Rightarrow> (exn + upload_response) \<times> state" where
  "upload_audio env st file =
     (case upload_audio_try env st file of
        (Inr response, st') \<Rightarrow> (Inr response, st')
      | (Inl e, st') \<Rightarrow>
          (case e of
             UnsupportedFileFormatException detail \<Rightarrow> (Inl (HTTPException 415 (str_exn e)), st')
           | _ \<Rightarrow> (Inl (HTTPException 500 (lit ''Upload failed: '' @ str_exn e)), st')))"

section \<open>Manual transcript edit (backend/routers/transcript.py)\<close>





section \<open>Translation Stage (ai_service/translation_service.py)\<close>

text \<open>
  The translation pipeline is a parameter: called with the text, the source code and the
  target code, it returns the list of \<^verbatim>\<open>translation_text\<close> values or raises.  The second
  component of the result of \<open>translate\<close> lists the calls made to it.
\<close>

record translator_service =
  supported_languages :: "(pystr \<times> pystr) list"
  translator :: "pystr \<Rightarrow> pystr \<Rightarrow> pystr \<Rightarrow> exn + pystr list"
  src_lang :: pystr

definition TranslatorService ::
  "(pystr \<Rightarrow> pystr \<Rightarrow> pystr \<Rightarrow> exn + pystr list) \<Rightarrow> translator_service" where
  "TranslatorService pipeline =
     \<lparr>supported_languages = [(lit ''en'', lit ''eng_Latn''), (lit ''ja'', lit ''jpn_Jpan''),
        (lit ''fr'', lit ''fra_Latn'')],
      translator = pipeline,
      src_lang = lit ''vie_Latn''\<rparr>"

definition translate ::
  "translator_service \<Rightarrow> pystr \<Rightarrow> pystr \<Rightarrow> (exn + pystr) \<times> (pystr \<times> pystr \<times> pystr) list"
  where
  "translate self txt target_lang =
     (case map_of (supported_languages self) target_lang of
        None \<Rightarrow>
          (Inl (ValueError
             (lit ''Unsupported target language '' @ [39] @ target_lang @ [39] @
              lit ''. Choose from: '' @ repr_list (map fst (supported_languages self)))), [])
      | Some tgt_lang \<Rightarrow>
          (case translator self txt (src_lang self) tgt_lang of
             Inl e \<Rightarrow> (Inl e, [(txt, src_lang self, tgt_lang)])
           | Inr result \<Rightarrow>
               (case result of
                  [] \<Rightarrow> (Inl (IndexError (lit ''list index out of range'')),
                         [(txt, src_lang self, tgt_lang)])
                | translated_text # _ \<Rightarrow>
                    (Inr translated_text, [(txt, src_lang self, tgt_lang)]))))"

section \<open>Translate by id (backend/routers/conversion.py)\<close>



section \<open>Synthesis Stage (ai_service/conversion_service.py)\<close>

text \<open>\<^verbatim>\<open>os.path.dirname\<close>, \<^verbatim>\<open>os.path.join\<close> (POSIX), the replacement of every backslash
  by a slash, and \<^verbatim>\<open>s.replace(old, new)\<close> for a non-empty \<open>old\<close>.\<close>

definition dirname :: "path \<Rightarrow> path" where
  "dirname p =
     (case rfind 47 p of
        None \<Rightarrow> []
      | Some i \<Rightarrow>
          (let head = take (Suc i) p
           in if head \<noteq> [] \<and> \<not> list_all (\<lambda>c. c = 47) head
              then rev (dropWhile (\<lambda>c. c = 47) (rev head)) else head))"

definition path_join :: "path \<Rightarrow> path \<Rightarrow> path" where
  "path_join a b =
     (if prefix [47] b then b else if a = [] \<or> suffix [47] a then a @ b else a @ [47] @ b)"

definition backslash_to_slash :: "pystr \<Rightarrow> pystr" where
  "backslash_to_slash s = map (\<lambda>c. if c = 92 then 47 else c) s"



text \<open>
  The class attribute \<^verbatim>\<open>SUPPORTED_LANGUAGES\<close>, in the order of the dictionary literal
  (the last key is \<^verbatim>\<open>fran\<close>, c with cedilla, \<^verbatim>\<open>ais\<close>).
\<close>

definition SUPPORTED_LANGUAGES :: "(pystr \<times> pystr) list" where
  "SUPPORTED_LANGUAGES =
     [(lit ''en'', lit ''en''), (lit ''english'', lit ''en''),
      (lit ''ja'', lit ''ja''), (lit ''japanese'', lit ''ja''), (lit ''jp'', lit ''ja''),
      (lit ''fr'', lit ''fr''), (lit ''french'', lit ''fr''),
      (lit ''fran'' @ [231] @ lit ''ais'', lit ''fr'')]"

text \<open>\<^verbatim>\<open>d[k]\<close> raises \<^verbatim>\<open>KeyError\<close> on a missing key.\<close>

definition subscript :: "(pystr \<times> pystr) list \<Rightarrow> pystr \<Rightarrow> exn + pystr" where
  "subscript d k = (case map_of d k of None \<Rightarrow> Inl (KeyError k) | Some v \<Rightarrow> Inr v)"

text \<open>The \<^verbatim>\<open>for key, value in ....items()\<close> loop of \<^verbatim>\<open>_normalize_language_code\<close>.\<close>

fun match_partial :: "pystr \<Rightarrow> (pystr \<times> pystr) list \<Rightarrow> pystr option" where
  "match_partial language_lower [] = None"
| "match_partial language_lower ((key, val) # items) =
     (if prefix key language_lower \<or> prefix language_lower key then Some val
      else match_partial language_lower items)"

definition normalize_language_code :: "pystr \<Rightarrow> exn + pystr" where
  "normalize_language_code language =
     (if language = [] then Inr (lit ''en'')
      else
        (let language_lower = str_strip (str_lower language)
         in if language_lower \<in> set (map fst SUPPORTED_LANGUAGES)
            then subscript SUPPORTED_LANGUAGES language_lower
            else (case match_partial language_lower SUPPORTED_LANGUAGES of
                    Some val \<Rightarrow> Inr val
                  | None \<Rightarrow> Inr (lit ''en''))))"

text \<open>
  The three model calls are parameters.  Conditioning extraction reads the files; voice
  conversion may change the files whether or not it raises.
\<close>

record ('lat, 'wav) voice_synthesis_service =
  get_conditioning_latents :: "(path \<rightharpoonup> bytes) \<Rightarrow> path \<Rightarrow> exn + 'lat"
  inference :: "pystr \<Rightarrow> pystr \<Rightarrow> 'lat \<Rightarrow> exn + 'wav"
  voice_conversion_to_file ::
    "(path \<rightharpoonup> bytes) \<Rightarrow> 'wav \<Rightarrow> path \<Rightarrow> path \<Rightarrow> exn option \<times> (path \<rightharpoonup> bytes)"

definition synthesize ::
  "('lat, 'wav) voice_synthesis_service \<Rightarrow> backend_env \<Rightarrow> (path \<rightharpoonup> bytes) \<Rightarrow>
   pystr \<Rightarrow> path \<Rightarrow> path \<Rightarrow> pystr \<Rightarrow> (exn + path) \<times> (path \<rightharpoonup> bytes)" where
  "synthesize self env files txt reference_audio_path output_path language =
     (case normalize_language_code language of
        Inl e \<Rightarrow> (Inl e, files)
      | Inr normalized_language \<Rightarrow>
          if reference_audio_path \<notin> dom files
          then (Inl (FileNotFoundError
                  (lit ''Reference audio file not found: '' @ reference_audio_path)), files)
          else
            (case get_conditioning_latents self files reference_audio_path of
               Inl e \<Rightarrow> (Inl e, files)
             | Inr latents \<Rightarrow>
                 (case inference self txt normalized_language latents of
                    Inl e \<Rightarrow> (Inl e, files)
                  | Inr out_wav \<Rightarrow>
                      (case makedirs env (dirname output_path) of
                         Some e \<Rightarrow> (Inl e, files)
                       | None \<Rightarrow>
                           (case voice_conversion_to_file self files out_wav
                                   reference_audio_path output_path of
                              (Some e, files') \<Rightarrow> (Inl e, files')
                            | (None, files') \<Rightarrow> (Inr output_path, files'))))))"

section \<open>Voice conversion by id (backend/routers/conversion.py)\<close>

definition synthesize_voice ::
  "('lat, 'wav) voice_synthesis_service \<Rightarrow> backend_env \<Rightarrow> (path \<rightharpoonup> bytes) \<Rightarrow>
   path \<Rightarrow> pystr \<Rightarrow> pystr \<Rightarrow> (exn + path) \<times> (path \<rightharpoonup> bytes)" where
  "synthesize_voice voice_service env files ref_path txt language =
     (let static_dir = lit ''static/converted''
      in case makedirs env static_dir of
           Some e \<Rightarrow> (Inl e, files)
         | None \<Rightarrow>
             (let fname = lit ''converted_'' @ take 8 (uuid4_hex env) @ lit ''_'' @ language @
                          lit ''.wav'';
                  output_path = backslash_to_slash (path_join static_dir fname)
              in case synthesize voice_service env files txt ref_path output_path language of
                   (Inl e, files') \<Rightarrow> (Inl e, files')
                 | (Inr returned_path, files') \<Rightarrow>
                     (let result_path = backslash_to_slash returned_path
                      in if result_path \<notin> dom files'
                         then (Inl (FileNotFoundError
                                 (lit ''Synthesized audio file not created: '' @ result_path)),
                               files')
                         else (Inr result_path, files'))))"





section \<open>Transcription Stage (ai_service/transcript_service.py)\<close>

text \<open>
  The library calls of \<^verbatim>\<open>transcribe\<close> are parameters: \<^verbatim>\<open>AudioSegment.from_file\<close> and
  \<^verbatim>\<open>export\<close> (pydub), the name chosen by \<^verbatim>\<open>tempfile.NamedTemporaryFile\<close>, the two
  \<^verbatim>\<open>soundfile.read\<close> calls, and whether \<^verbatim>\<open>os.remove\<close> raises \<^verbatim>\<open>OSError\<close>.
\<close>

record ('seg, 'audio) audio_libs =
  from_file :: "(path \<rightharpoonup> bytes) \<Rightarrow> path \<Rightarrow> pystr \<Rightarrow> exn + 'seg"
  named_temporary_file :: "exn + path"
  export :: "'seg \<Rightarrow> exn + bytes"
  sf_read_frame :: "(path \<rightharpoonup> bytes) \<Rightarrow> path \<Rightarrow> exn option"
  sf_read :: "(path \<rightharpoonup> bytes) \<Rightarrow> path \<Rightarrow> exn + 'audio"
  remove_fails :: bool

text \<open>
  The service: the two loading flags, the ASR call (mono mix, resampling, normalisation
  and Whisper decoding of the loaded samples, taken as one call) and the correction
  pipeline, which returns the list of \<^verbatim>\<open>generated_text\<close> values or raises.
\<close>

record 'audio transcript_service =
  asr_loaded :: bool
  correction_loaded :: bool
  asr_generate :: "'audio \<Rightarrow> exn + pystr"
  corrector :: "pystr \<Rightarrow> exn + pystr list"

definition validate_audio_file ::
  "('seg, 'audio) audio_libs \<Rightarrow> (path \<rightharpoonup> bytes) \<Rightarrow> path \<Rightarrow> bool" where
  "validate_audio_file libs files wav_path =
     (case files wav_path of
        None \<Rightarrow> False
      | Some data \<Rightarrow>
          if length data = 0 then False
          else (case sf_read_frame libs files wav_path of Some e \<Rightarrow> False | None \<Rightarrow> True))"

text \<open>Step 1 of \<^verbatim>\<open>transcribe\<close>: the inner \<^verbatim>\<open>try\<close> that converts a non-WAV file.\<close>

definition convert_to_wav ::
  "('seg, 'audio) audio_libs \<Rightarrow> (path \<rightharpoonup> bytes) \<Rightarrow> path \<Rightarrow> pystr \<Rightarrow>
   (exn + path) \<times> (path \<rightharpoonup> bytes)" where
  "convert_to_wav libs files orig_path sfx =
     (let failed = (\<lambda>e. ValueError (lit ''Cannot convert '' @ sfx @ lit '' to WAV: '' @ str_exn e))
      in case from_file libs files orig_path (dropWhile (\<lambda>c. c = 46) sfx) of
           Inl e \<Rightarrow> (Inl (failed e), files)
         | Inr audio_seg \<Rightarrow>
             (case named_temporary_file libs of
                Inl e \<Rightarrow> (Inl (failed e), files)
              | Inr tmp_wav_path \<Rightarrow>
                  (case export libs audio_seg of
                     Inl e \<Rightarrow> (Inl (failed e), files(tmp_wav_path \<mapsto> []))
                   | Inr data \<Rightarrow> (Inr tmp_wav_path, files(tmp_wav_path \<mapsto> data)))))"

definition transcribe ::
  "'audio transcript_service \<Rightarrow> ('seg, 'audio) audio_libs \<Rightarrow> (path \<rightharpoonup> bytes) \<Rightarrow> path \<Rightarrow>
   (exn + pystr) \<times> (path \<rightharpoonup> bytes)" where
  "transcribe self libs files orig_path =
     (if \<not> asr_loaded self then (Inl (RuntimeError (lit ''ASR model not loaded'')), files)
      else
        (let sfx = str_lower (path_suffix orig_path)
         in case (if sfx \<noteq> lit ''.wav'' then convert_to_wav libs files orig_path sfx
                  else (Inr orig_path, files)) of
              (Inl e, files1) \<Rightarrow> (Inl e, files1)
            | (Inr wav_path, files1) \<Rightarrow>
                if \<not> validate_audio_file libs files1 wav_path
                then (Inl (ValueError (lit ''Invalid audio file: '' @ wav_path)), files1)
                else
                  (case sf_read libs files1 wav_path of
                     Inl e \<Rightarrow> (Inl e, files1)
                   | Inr audio \<Rightarrow>
                       (let files2 = (if sfx \<noteq> lit ''.wav'' \<and> \<not> remove_fails libs
                                      then files1(wav_path := None) else files1)
                        in case asr_generate self audio of
                             Inl e \<Rightarrow> (Inl e, files2)
                           | Inr raw \<Rightarrow> (Inr (str_strip raw), files2)))))"

definition correct_text :: "'audio transcript_service \<Rightarrow> pystr \<Rightarrow> exn + pystr" where
  "correct_text self raw_text =
     (if str_strip raw_text = [] then Inr []
      else if \<not> correction_loaded self then Inr raw_text
      else (case corrector self raw_text of
              Inl e \<Rightarrow> Inr raw_text
            | Inr [] \<Rightarrow> Inr raw_text
            | Inr (generated_text # _) \<Rightarrow> Inr (str_strip generated_text)))"

record process_result =
  pr_raw_transcript :: pystr
  pr_corrected_transcript :: pystr
  pr_status :: pystr
  pr_error :: "pystr option"

definition process_audio ::
  "'audio transcript_service \<Rightarrow> ('seg, 'audio) audio_libs \<Rightarrow> (path \<rightharpoonup> bytes) \<Rightarrow> path \<Rightarrow>
   process_result \<times> (path \<rightharpoonup> bytes)" where
  "process_audio self libs files wav_or_other_path =
     (if \<not> asr_loaded self
      then (\<lparr>pr_raw_transcript = [], pr_corrected_transcript = [], pr_status = lit ''error'',
             pr_error = Some (lit ''ASR model not loaded - cannot process audio'')\<rparr>, files)
      else
        (case transcribe self libs files wav_or_other_path of
           (Inl e, files') \<Rightarrow>
             (\<lparr>pr_raw_transcript = [], pr_corrected_transcript = [],
               pr_status = lit ''error'',
               pr_error = Some (lit ''Transcription failed: '' @ str_exn e)\<rparr>, files')
         | (Inr raw, files') \<Rightarrow>
             (let corrected = (case correct_text self raw of
                                 Inl e \<Rightarrow> raw | Inr corrected_text \<Rightarrow> corrected_text)
              in (\<lparr>pr_raw_transcript = raw, pr_corrected_transcript = corrected,
                    pr_status = lit ''success'', pr_error = None\<rparr>, files'))))"

section \<open>The normalization policy in the words of the specification\<close>

text \<open>
  The three steps as the specification words them: an exact match of the lower-cased,
  trimmed input against the table; else the first entry whose key is contained in the
  input or contains it (a prefix is a special case of either); else \<open>en\<close>.
\<close>

definition spec_normalize_language_code :: "pystr \<Rightarrow> pystr" where
  "spec_normalize_language_code language =
     (let wanted = str_strip (str_lower language)
      in case map_of SUPPORTED_LANGUAGES wanted of
           Some code \<Rightarrow> code
         | None \<Rightarrow>
             (case find (\<lambda>(key, code). sublist key wanted \<or> sublist wanted key)
                     SUPPORTED_LANGUAGES of
                Some (key, code) \<Rightarrow> code
              | None \<Rightarrow> lit ''en''))"

section \<open>Example inputs\<close>

text \<open>A store with one uploaded WAV file and its Vietnamese transcript.\<close>

definition example_session :: session where
  "example_session =
     \<lparr>raw_transcript = Some (lit ''xin chao cac ban''),
      corrected_transcript =
        Some (lit ''xin ch'' @ [224] @ lit ''o c'' @ [225] @ lit ''c b'' @ [7841] @ lit ''n''),
      translated_transcript = None, voice_conversions = None,
      status = Some (lit ''completed'')\<rparr>"

definition example_state :: state where
  "example_state =
     \<lparr>audio_storage = [lit ''id1'' \<mapsto> \<lparr>a_id = lit ''id1'', a_filename = Some (lit ''a.wav''),
         a_content = [82, 73], a_content_type = None, a_file_path = lit ''/tmp/id1.wav'',
         a_upload_time = 0\<rparr>],
      transcript_storage = [lit ''id1'' \<mapsto> example_session],
      fs = [lit ''/tmp/id1.wav'' \<mapsto> [82, 73]]\<rparr>"


definition example_env :: backend_env where
  "example_env =
     \<lparr>uuid4 = lit ''0f8fad5b-d9cb-469f-a165-70867728950e'',
      uuid4_hex = lit ''7c9e6679742540de944be07fc1f90ae7'',
      now = 1, temp_audio_dir = lit ''/tmp/audio_uploads'',
      write_error = None, makedirs = (\<lambda>p. None)\<rparr>"


text \<open>Audio libraries that convert and read every file, and a service whose correction
  model is not loaded.\<close>

definition example_libs :: "(bytes, bytes) audio_libs" where
  "example_libs =
     \<lparr>from_file = (\<lambda>files p fmt. case files p of
                       None \<Rightarrow> Inl (FileNotFoundError p) | Some data \<Rightarrow> Inr data),
      named_temporary_file = Inr (lit ''/tmp/tmpq1w2e3.wav''),
      export = (\<lambda>audio_seg. Inr (lit ''RIFF'' @ audio_seg)),
      sf_read_frame = (\<lambda>files p. None),
      sf_read = (\<lambda>files p. case files p of
                     None \<Rightarrow> Inl (RuntimeError p) | Some data \<Rightarrow> Inr data),
      remove_fails = False\<rparr>"

definition example_transcript_service :: "bytes transcript_service" where
  "example_transcript_service =
     \<lparr>asr_loaded = True, correction_loaded = False,
      asr_generate = (\<lambda>audio. Inr (lit '' xin chao cac ban '')),
      corrector = (\<lambda>raw. Inl (ModelError (lit ''not loaded'')))\<rparr>"

text \<open>A voice service whose conversion step writes an empty output file.\<close>

definition example_voice_service :: "(unit, unit) voice_synthesis_service" where
  "example_voice_service =
     \<lparr>get_conditioning_latents = (\<lambda>files p. Inr ()),
      inference = (\<lambda>txt language latents. Inr ()),
      voice_conversion_to_file = (\<lambda>files wav ref out. (None, files(out \<mapsto> [])))\<rparr>"

text \<open>A voice service whose conversion step returns without writing anything.\<close>

definition silent_voice_service :: "(unit, unit) voice_synthesis_service" where
  "silent_voice_service =
     \<lparr>get_conditioning_latents = (\<lambda>files p. Inr ()),
      inference = (\<lambda>txt language latents. Inr ()),
      voice_conversion_to_file = (\<lambda>files wav ref out. (None, files))\<rparr>"

text \<open>Audio libraries whose \<^verbatim>\<open>soundfile.read\<close> raises on the header probe, or on the full read,
  and a store of files holding one MP3 upload.\<close>

definition unreadable_libs :: "(bytes, bytes) audio_libs" where
  "unreadable_libs =
     example_libs\<lparr>sf_read_frame := (\<lambda>files p. Some (RuntimeError (lit ''Error opening file'')))\<rparr>"

definition unloadable_libs :: "(bytes, bytes) audio_libs" where
  "unloadable_libs =
     example_libs\<lparr>sf_read := (\<lambda>files p. Inl (RuntimeError (lit ''Error opening file'')))\<rparr>"

definition example_mp3_files :: "path \<rightharpoonup> bytes" where
  "example_mp3_files = [lit ''/tmp/audio_uploads/clip.mp3'' \<mapsto> [73, 68, 51]]"


section \<open>Properties\<close>

text \<open>
  C1: every text whose trimmed length is below 10 code points (the empty text included)
  is classified as not Vietnamese with code \<open>text_too_short\<close>, whatever it contains, and
  the detector is not called.
\<close>

theorem short_text_rejected:
  "length (str_strip transcript) < 10 \<Longrightarrow>
   is_vietnamese_transcript detect transcript = ((False, Str (lit ''text_too_short'')), [])"
  by (simp add: is_vietnamese_transcript_def)

theorem short_text_rejected_witness:
  "length (str_strip (lit '' xin chao '')) < 10 \<and>
   is_vietnamese_transcript (\<lambda>t. Inr (Str (lit ''VI''))) (lit '' xin chao '')
     = ((False, Str (lit ''text_too_short'')), [])"
  using short_text_rejected [of "lit '' xin chao ''" "\<lambda>t. Inr (Str (lit ''VI''))"]
  by (simp add: str_strip_def lit_def isspace_def)

text \<open>
  C6: a target code outside en, ja, fr makes \<open>translate\<close> raise \<^verbatim>\<open>ValueError\<close> with a
  message that names the rejected code and the list of allowed codes, and the pipeline
  is not called.  For a code of the set, the result of \<open>translate\<close> is what the pipeline
  returns for the text, the source code \<open>vie_Latn\<close> and the NLLB code of the target (its
  first translation, or the exception it raises), and that one call is the only call.
\<close>

theorem translate_language_gate:
  "(target_lang \<notin> {lit ''en'', lit ''ja'', lit ''fr''} \<longrightarrow>
      translate (TranslatorService pipeline) txt target_lang =
        (Inl (ValueError (lit ''Unsupported target language '' @ [39] @ target_lang @ [39] @
                lit ''. Choose from: '' @ repr_list [lit ''en'', lit ''ja'', lit ''fr''])), [])) \<and>
   (target_lang \<in> {lit ''en'', lit ''ja'', lit ''fr''} \<longrightarrow>
      (\<exists>tgt_lang.
         (target_lang, tgt_lang) \<in> {(lit ''en'', lit ''eng_Latn''), (lit ''ja'', lit ''jpn_Jpan''),
                                    (lit ''fr'', lit ''fra_Latn'')} \<and>
         translate (TranslatorService pipeline) txt target_lang =
           ((case pipeline txt (lit ''vie_Latn'') tgt_lang of
               Inl e \<Rightarrow> Inl e
             | Inr [] \<Rightarrow> Inl (IndexError (lit ''list index out of range''))
             | Inr (translated_text # _) \<Rightarrow> Inr translated_text),
            [(txt, lit ''vie_Latn'', tgt_lang)])))"
  by (auto simp: translate_def TranslatorService_def lit_def split: sum.splits list.splits)

lemma fr_code:
  "(lit ''fr'', tgt_lang) \<in> {(lit ''en'', lit ''eng_Latn''), (lit ''ja'', lit ''jpn_Jpan''),
                              (lit ''fr'', lit ''fra_Latn'')} \<Longrightarrow> tgt_lang = lit ''fra_Latn''"
  by (auto simp: lit_def)

theorem translate_language_gate_witness:
  "lit ''de'' \<notin> {lit ''en'', lit ''ja'', lit ''fr''} \<and>
   lit ''fr'' \<in> {lit ''en'', lit ''ja'', lit ''fr''} \<and>
   translate (TranslatorService (\<lambda>t s g. Inr [s @ g @ t])) (lit ''xin chao'') (lit ''de'') =
     (Inl (ValueError (lit ''Unsupported target language '' @ [39] @ lit ''de'' @ [39] @
                lit ''. Choose from: '' @ repr_list [lit ''en'', lit ''ja'', lit ''fr''])), []) \<and>
   translate (TranslatorService (\<lambda>t s g. Inr [s @ g @ t])) (lit ''xin chao'') (lit ''fr'') =
     (Inr (lit ''vie_Latn'' @ lit ''fra_Latn'' @ lit ''xin chao''),
      [(lit ''xin chao'', lit ''vie_Latn'', lit ''fra_Latn'')])"
proof -
  have de: "lit ''de'' \<notin> {lit ''en'', lit ''ja'', lit ''fr''}"
    by (simp add: lit_def)
  have fr: "lit ''fr'' \<in> {lit ''en'', lit ''ja'', lit ''fr''}"
    by simp
  from translate_language_gate [of "lit ''de''" "\<lambda>t s g. Inr [s @ g @ t]" "lit ''xin chao''"] de
  have rejected: "translate (TranslatorService (\<lambda>t s g. Inr [s @ g @ t])) (lit ''xin chao'') (lit ''de'') =
     (Inl (ValueError (lit ''Unsupported target language '' @ [39] @ lit ''de'' @ [39] @
                lit ''. Choose from: '' @ repr_list [lit ''en'', lit ''ja'', lit ''fr''])), [])"
    by blast
  from translate_language_gate [of "lit ''fr''" "\<lambda>t s g. Inr [s @ g @ t]" "lit ''xin chao''"] fr
  obtain tgt_lang where
    code: "(lit ''fr'', tgt_lang) \<in> {(lit ''en'', lit ''eng_Latn''), (lit ''ja'', lit ''jpn_Jpan''),
                                      (lit ''fr'', lit ''fra_Latn'')}"
    and run: "translate (TranslatorService (\<lambda>t s g. Inr [s @ g @ t])) (lit ''xin chao'') (lit ''fr'') =
           ((case (\<lambda>t s g. Inr [s @ g @ t]) (lit ''xin chao'') (lit ''vie_Latn'') tgt_lang of
               Inl e \<Rightarrow> Inl e
             | Inr [] \<Rightarrow> Inl (IndexError (lit ''list index out of range''))
             | Inr (translated_text # _) \<Rightarrow> Inr translated_text),
            [(lit ''xin chao'', lit ''vie_Latn'', tgt_lang)])"
    by blast
  from fr_code [OF code] run
  have accepted: "translate (TranslatorService (\<lambda>t s g. Inr [s @ g @ t])) (lit ''xin chao'') (lit ''fr'') =
     (Inr (lit ''vie_Latn'' @ lit ''fra_Latn'' @ lit ''xin chao''),
      [(lit ''xin chao'', lit ''vie_Latn'', lit ''fra_Latn'')])"
    by simp
  from de fr rejected accepted show ?thesis by (intro conjI)
qed

subsection \<open>Failed requests and the Session\<close>





subsection \<open>Correction fallback\<close>

lemma dropWhile_str_strip: "dropWhile isspace (str_strip s) = str_strip s"
proof (cases "str_strip s")
  case Nil
  then show ?thesis by simp
next
  case (Cons c cs)
  define u where "u = dropWhile isspace s"
  have "suffix (dropWhile isspace (rev u)) (rev u)"
    by (rule suffix_dropWhile)
  then obtain w where w: "rev u = w @ dropWhile isspace (rev u)"
    by (auto simp: suffix_def)
  have "u = str_strip s @ rev w"
    using arg_cong [OF w, of rev] by (simp add: str_strip_def u_def)
  with Cons have "hd u = c" and "u \<noteq> []" by auto
  then have "\<not> isspace c"
    using hd_dropWhile [of isspace s] by (simp add: u_def)
  with Cons show ?thesis by simp
qed

lemma dropWhile_rev_str_strip: "dropWhile isspace (rev (str_strip s)) = rev (str_strip s)"
  by (simp add: str_strip_def)

lemma str_strip_idem: "str_strip (str_strip s) = str_strip s"
proof -
  have "str_strip (str_strip s) = rev (dropWhile isspace (rev (dropWhile isspace (str_strip s))))"
    by (simp add: str_strip_def)
  also have "\<dots> = rev (dropWhile isspace (rev (str_strip s)))"
    by (simp only: dropWhile_str_strip)
  also have "\<dots> = str_strip s"
    by (simp only: dropWhile_rev_str_strip rev_rev_ident)
  finally show ?thesis .
qed

lemma correct_text_fallback:
  "\<not> correction_loaded self \<or> (\<exists>e. corrector self (str_strip raw) = Inl e) \<or>
     corrector self (str_strip raw) = Inr [] \<Longrightarrow>
   correct_text self (str_strip raw) = Inr (str_strip raw)"
  by (auto simp: correct_text_def str_strip_idem)

text \<open>
  C5: when transcription yields a raw transcript and the correction model is not loaded,
  or the correction call raises or returns no output, \<open>process_audio\<close> reports success
  with the raw transcript as the corrected transcript.
\<close>

theorem correction_failure_degrades:
  assumes "transcribe self libs files p = (Inr raw, files')"
    and "\<not> correction_loaded self \<or> (\<exists>e. corrector self raw = Inl e) \<or>
         corrector self raw = Inr []"
  shows "process_audio self libs files p =
           (\<lparr>pr_raw_transcript = raw, pr_corrected_transcript = raw,
             pr_status = lit ''success'', pr_error = None\<rparr>, files')"
proof -
  from assms(1) have loaded: "asr_loaded self"
    by (auto simp: transcribe_def split: if_splits)
  from assms(1) obtain r where raw: "raw = str_strip r"
    by (auto simp: transcribe_def Let_def split: if_splits prod.splits sum.splits)
  from assms(2) have "correct_text self raw = Inr raw"
    unfolding raw by (rule correct_text_fallback)
  with loaded assms(1) show ?thesis
    by (simp add: process_audio_def)
qed

lemma suffix_of_example_wav: "str_lower (path_suffix (lit ''/tmp/id1.wav'')) = lit ''.wav''"
  by (simp add: path_suffix_def path_name_def lit_def str_lower_def lower_char_def)

lemma transcribe_example:
  "transcribe example_transcript_service example_libs (fs example_state) (lit ''/tmp/id1.wav'')
     = (Inr (lit ''xin chao cac ban''), fs example_state)"
  by (simp add: transcribe_def suffix_of_example_wav validate_audio_file_def example_libs_def
        example_transcript_service_def example_state_def)
     (simp add: str_strip_def isspace_def lit_def)

theorem correction_failure_degrades_witness:
  "transcribe example_transcript_service example_libs (fs example_state) (lit ''/tmp/id1.wav'')
     = (Inr (lit ''xin chao cac ban''), fs example_state) \<and>
   \<not> correction_loaded example_transcript_service \<and>
   process_audio example_transcript_service example_libs (fs example_state) (lit ''/tmp/id1.wav'')
     = (\<lparr>pr_raw_transcript = lit ''xin chao cac ban'',
          pr_corrected_transcript = lit ''xin chao cac ban'',
          pr_status = lit ''success'', pr_error = None\<rparr>, fs example_state)"
  using correction_failure_degrades [OF transcribe_example] transcribe_example
  by (simp add: example_transcript_service_def)

subsection \<open>Upload\<close>








text \<open>
  Every upload either leaves the store as it was or adds one entry, whose content is not
  empty and is the content of its backing file.
\<close>

lemma upload_audio_store:
  "upload_audio env st file = (r, st') \<Longrightarrow>
   audio_storage st' = audio_storage st \<or>
   (\<exists>entry. audio_storage st' = (audio_storage st)(uuid4 env \<mapsto> entry) \<and>
      a_content entry \<noteq> [] \<and> fs st' (a_file_path entry) = Some (a_content entry))"
  by (auto simp: upload_audio_def upload_audio_try_def save_audio_in_memory_and_disk_def
        Let_def split: sum.splits if_splits option.splits exn.splits)

text \<open>
  C10: an upload with an allowed extension and empty content.  The request fails before
  anything is stored, but the status is 500: the \<^verbatim>\<open>HTTPException\<close> with status 400 raised
  for the empty content is caught by the \<^verbatim>\<open>except Exception\<close> clause of the same \<^verbatim>\<open>try\<close>.
\<close>

theorem empty_upload_reported_as_500:
  "\<exists>detail.
     upload_audio env st
       \<lparr>uf_filename = Some (lit ''a.wav''), uf_content_type = ct, uf_read = Inr []\<rparr>
     = (Inl (HTTPException 500 detail), st)"
  apply (simp add: upload_audio_def upload_audio_try_def check_audio_format_def or_str_def
      supported_formats_def)
  apply (simp add: lit_def str_lower_def lower_char_def suffix_to_prefix)
  done

subsection \<open>Text chosen for voice conversion\<close>








subsection \<open>Synthesis output\<close>

text \<open>
  C3 as stated fails: the conversion step writes an empty file at the output path, and
  \<open>synthesize_voice\<close> returns that path as its result.
\<close>

theorem empty_output_reported_as_success:
  "fst (synthesize_voice example_voice_service example_env (fs example_state)
          (lit ''/tmp/id1.wav'') (lit ''bonjour'') (lit ''fr''))
     = Inr (lit ''static/converted/converted_7c9e6679_fr.wav'') \<and>
   snd (synthesize_voice example_voice_service example_env (fs example_state)
          (lit ''/tmp/id1.wav'') (lit ''bonjour'') (lit ''fr''))
       (lit ''static/converted/converted_7c9e6679_fr.wav'') = Some []"
  by code_simp

text \<open>
  C3, amended: when \<open>synthesize_voice\<close> returns a path, a file exists at that path (its
  size is not checked).  When \<open>synthesize\<close> returns a path at which no file exists,
  \<open>synthesize_voice\<close> raises \<^verbatim>\<open>FileNotFoundError\<close> with its own message; an exception
  raised by \<open>synthesize\<close> is raised again as it is.
\<close>

theorem synthesize_voice_output_exists:
  "(synthesize_voice vs env files ref_path txt language = (Inr result_path, files') \<longrightarrow>
      result_path \<in> dom files') \<and>
   (makedirs env (lit ''static/converted'') = None \<and>
    synthesize vs env files txt ref_path
      (backslash_to_slash (path_join (lit ''static/converted'')
         (lit ''converted_'' @ take 8 (uuid4_hex env) @ lit ''_'' @ language @ lit ''.wav'')))
      language = (Inr returned_path, files') \<and>
    backslash_to_slash returned_path \<notin> dom files' \<longrightarrow>
      synthesize_voice vs env files ref_path txt language =
        (Inl (FileNotFoundError (lit ''Synthesized audio file not created: '' @
                backslash_to_slash returned_path)), files')) \<and>
   (makedirs env (lit ''static/converted'') = None \<and>
    synthesize vs env files txt ref_path
      (backslash_to_slash (path_join (lit ''static/converted'')
         (lit ''converted_'' @ take 8 (uuid4_hex env) @ lit ''_'' @ language @ lit ''.wav'')))
      language = (Inl e, files') \<longrightarrow>
      synthesize_voice vs env files ref_path txt language = (Inl e, files'))"
  by (auto simp: synthesize_voice_def Let_def split: option.splits prod.splits sum.splits if_splits)

lemma silent_synthesize:
  "makedirs example_env (lit ''static/converted'') = None \<and>
   fst (synthesize silent_voice_service example_env (fs example_state) (lit ''bonjour'')
      (lit ''/tmp/id1.wav'')
      (backslash_to_slash (path_join (lit ''static/converted'')
         (lit ''converted_'' @ take 8 (uuid4_hex example_env) @ lit ''_'' @ lit ''fr'' @ lit ''.wav'')))
      (lit ''fr''))
     = Inr (lit ''static/converted/converted_7c9e6679_fr.wav'') \<and>
   snd (synthesize silent_voice_service example_env (fs example_state) (lit ''bonjour'')
      (lit ''/tmp/id1.wav'')
      (backslash_to_slash (path_join (lit ''static/converted'')
         (lit ''converted_'' @ take 8 (uuid4_hex example_env) @ lit ''_'' @ lit ''fr'' @ lit ''.wav'')))
      (lit ''fr''))
     (backslash_to_slash (lit ''static/converted/converted_7c9e6679_fr.wav'')) = None"
  by code_simp

theorem synthesize_voice_output_exists_witness:
  "makedirs example_env (lit ''static/converted'') = None \<and>
   fst (synthesize silent_voice_service example_env (fs example_state) (lit ''bonjour'')
      (lit ''/tmp/id1.wav'')
      (backslash_to_slash (path_join (lit ''static/converted'')
         (lit ''converted_'' @ take 8 (uuid4_hex example_env) @ lit ''_'' @ lit ''fr'' @ lit ''.wav'')))
      (lit ''fr''))
     = Inr (lit ''static/converted/converted_7c9e6679_fr.wav'') \<and>
   snd (synthesize silent_voice_service example_env (fs example_state) (lit ''bonjour'')
      (lit ''/tmp/id1.wav'')
      (backslash_to_slash (path_join (lit ''static/converted'')
         (lit ''converted_'' @ take 8 (uuid4_hex example_env) @ lit ''_'' @ lit ''fr'' @ lit ''.wav'')))
      (lit ''fr''))
     (backslash_to_slash (lit ''static/converted/converted_7c9e6679_fr.wav'')) = None \<and>
   fst (synthesize_voice silent_voice_service example_env (fs example_state) (lit ''/tmp/id1.wav'')
      (lit ''bonjour'') (lit ''fr''))
     = Inl (FileNotFoundError (lit ''Synthesized audio file not created: '' @
          backslash_to_slash (lit ''static/converted/converted_7c9e6679_fr.wav'')))"
proof -
  define run where "run = synthesize silent_voice_service example_env (fs example_state)
      (lit ''bonjour'') (lit ''/tmp/id1.wav'')
      (backslash_to_slash (path_join (lit ''static/converted'')
         (lit ''converted_'' @ take 8 (uuid4_hex example_env) @ lit ''_'' @ lit ''fr'' @ lit ''.wav'')))
      (lit ''fr'')"
  from silent_synthesize have m: "makedirs example_env (lit ''static/converted'') = None"
    and r: "run = (Inr (lit ''static/converted/converted_7c9e6679_fr.wav''), snd run)"
    and missing: "backslash_to_slash (lit ''static/converted/converted_7c9e6679_fr.wav'')
                    \<notin> dom (snd run)"
    by (simp_all add: run_def prod_eq_iff domIff)
  from synthesize_voice_output_exists [of silent_voice_service example_env "fs example_state"
      "lit ''/tmp/id1.wav''" "lit ''bonjour''" "lit ''fr''" _ "snd run"
      "lit ''static/converted/converted_7c9e6679_fr.wav''"] m r missing
  have "synthesize_voice silent_voice_service example_env (fs example_state) (lit ''/tmp/id1.wav'')
      (lit ''bonjour'') (lit ''fr'')
     = (Inl (FileNotFoundError (lit ''Synthesized audio file not created: '' @
          backslash_to_slash (lit ''static/converted/converted_7c9e6679_fr.wav''))), snd run)"
    unfolding run_def by blast
  with silent_synthesize show ?thesis by simp
qed

subsection \<open>Temporary WAV file\<close>

text \<open>
  On the path where conversion, validation and loading all succeed, the temporary WAV
  file is removed (unless \<^verbatim>\<open>os.remove\<close> itself fails).
\<close>

lemma transcribe_success_removes_temp:
  assumes "transcribe self libs files orig_path = (Inr raw, files')"
    and "str_lower (path_suffix orig_path) \<noteq> lit ''.wav''"
    and "named_temporary_file libs = Inr tmp_wav_path"
    and "\<not> remove_fails libs"
  shows "files' tmp_wav_path = None"
  using assms
  by (auto simp: transcribe_def convert_to_wav_def Let_def
        split: if_splits sum.splits prod.splits)

text \<open>
  C8: transcription of an MP3 file whose converted WAV file cannot be read.  With the
  header probe failing, \<open>transcribe\<close> raises \<^verbatim>\<open>ValueError\<close>; with the full read failing,
  it raises the read's exception.  In both runs the temporary WAV file, which did not
  exist before the call, is still there after it.
\<close>

theorem temp_wav_left_after_failure:
  "fst (transcribe example_transcript_service unreadable_libs example_mp3_files
          (lit ''/tmp/audio_uploads/clip.mp3''))
     = Inl (ValueError (lit ''Invalid audio file: /tmp/tmpq1w2e3.wav'')) \<and>
   snd (transcribe example_transcript_service unreadable_libs example_mp3_files
          (lit ''/tmp/audio_uploads/clip.mp3'')) (lit ''/tmp/tmpq1w2e3.wav'')
     = Some (lit ''RIFF'' @ [73, 68, 51]) \<and>
   fst (transcribe example_transcript_service unloadable_libs example_mp3_files
          (lit ''/tmp/audio_uploads/clip.mp3''))
     = Inl (RuntimeError (lit ''Error opening file'')) \<and>
   snd (transcribe example_transcript_service unloadable_libs example_mp3_files
          (lit ''/tmp/audio_uploads/clip.mp3'')) (lit ''/tmp/tmpq1w2e3.wav'')
     = Some (lit ''RIFF'' @ [73, 68, 51]) \<and>
   example_mp3_files (lit ''/tmp/tmpq1w2e3.wav'') = None"
  by code_simp

subsection \<open>Language-code normalization\<close>

text \<open>
  C4 as stated fails: the input \<open>xja\<close> contains the table key \<open>ja\<close>, so the policy with a
  contains match yields \<open>ja\<close>; the code compares prefixes only and falls through to \<open>en\<close>.
\<close>

theorem contained_code_not_matched:
  "spec_normalize_language_code (lit ''xja'') = lit ''ja'' \<and>
   normalize_language_code (lit ''xja'') = Inr (lit ''en'')"
  by code_simp

lemma match_partial_None:
  "match_partial x items = None \<longleftrightarrow>
     (\<forall>(key, v) \<in> set items. \<not> prefix key x \<and> \<not> prefix x key)"
  by (induction items) (auto split: if_splits)

lemma match_partial_Some:
  "match_partial x items = Some v \<Longrightarrow>
     \<exists>key. (key, v) \<in> set items \<and> (prefix key x \<or> prefix x key)"
  by (induction items) (auto split: if_splits)

lemma prefix_related_hd:
  "x \<noteq> [] \<Longrightarrow> key \<noteq> [] \<Longrightarrow> prefix key x \<or> prefix x key \<Longrightarrow> hd key = hd x"
  by (cases x; cases key) auto

lemma table_keys_nonempty: "(key, v) \<in> set SUPPORTED_LANGUAGES \<Longrightarrow> key \<noteq> []"
  by (auto simp: SUPPORTED_LANGUAGES_def lit_def)

lemma table_values: "(key, v) \<in> set SUPPORTED_LANGUAGES \<Longrightarrow> v \<in> {lit ''en'', lit ''ja'', lit ''fr''}"
  by (auto simp: SUPPORTED_LANGUAGES_def)

lemma table_first_char:
  "(key, v) \<in> set SUPPORTED_LANGUAGES \<Longrightarrow> (key', v') \<in> set SUPPORTED_LANGUAGES \<Longrightarrow>
   hd key = hd key' \<Longrightarrow> v = v'"
  by (auto simp: SUPPORTED_LANGUAGES_def lit_def)

text \<open>
  C4, amended: normalization never raises and returns one of \<open>en\<close>, \<open>ja\<close>, \<open>fr\<close>.  The
  empty input gives \<open>en\<close>.  Otherwise, with the input lower-cased and then trimmed: an
  exact match against the table gives that entry's code; without an exact match, a
  non-empty input gives the code of any entry whose key is a prefix of it or has it as a
  prefix (all such entries agree); an input that is empty after trimming, or that is in
  no prefix relation with any key, gives \<open>en\<close>.
\<close>

theorem normalize_language_code_policy:
  "\<exists>code. normalize_language_code language = Inr code \<and>
     code \<in> {lit ''en'', lit ''ja'', lit ''fr''} \<and>
     (language = [] \<longrightarrow> code = lit ''en'') \<and>
     (language \<noteq> [] \<longrightarrow>
        (\<forall>v. map_of SUPPORTED_LANGUAGES (str_strip (str_lower language)) = Some v \<longrightarrow> code = v) \<and>
        (map_of SUPPORTED_LANGUAGES (str_strip (str_lower language)) = None \<longrightarrow>
           (str_strip (str_lower language) \<noteq> [] \<longrightarrow>
              (\<forall>key v. (key, v) \<in> set SUPPORTED_LANGUAGES \<and>
                 (prefix key (str_strip (str_lower language)) \<or>
                  prefix (str_strip (str_lower language)) key) \<longrightarrow> code = v)) \<and>
           (str_strip (str_lower language) = [] \<or>
            (\<forall>(key, v) \<in> set SUPPORTED_LANGUAGES.
               \<not> prefix key (str_strip (str_lower language)) \<and>
               \<not> prefix (str_strip (str_lower language)) key) \<longrightarrow> code = lit ''en'')))"
proof (cases "language = []")
  case True
  then show ?thesis by (simp add: normalize_language_code_def)
next
  case False
  define x where "x = str_strip (str_lower language)"
  show ?thesis
  proof (cases "map_of SUPPORTED_LANGUAGES x")
    case (Some v)
    then have mem: "(x, v) \<in> set SUPPORTED_LANGUAGES"
      by (rule map_of_SomeD)
    then have "x \<in> set (map fst SUPPORTED_LANGUAGES)"
      by force
    with Some False have "normalize_language_code language = Inr v"
      by (simp add: normalize_language_code_def subscript_def x_def [symmetric] Let_def)
    with Some False table_values [OF mem] show ?thesis
      by (simp add: x_def [symmetric])
  next
    case None
    then have notin: "x \<notin> set (map fst SUPPORTED_LANGUAGES)"
      by (simp add: map_of_eq_None_iff)
    show ?thesis
    proof (cases "match_partial x SUPPORTED_LANGUAGES")
      case no_match: None
      with notin False have res: "normalize_language_code language = Inr (lit ''en'')"
        by (simp add: normalize_language_code_def x_def [symmetric] Let_def)
      from no_match have none: "\<And>key v. (key, v) \<in> set SUPPORTED_LANGUAGES \<Longrightarrow>
          \<not> prefix key x \<and> \<not> prefix x key"
        by (auto simp: match_partial_None)
      from res None False none show ?thesis
        by (auto simp: x_def [symmetric])
    next
      case (Some w)
      with notin False have res: "normalize_language_code language = Inr w"
        by (simp add: normalize_language_code_def x_def [symmetric] Let_def)
      from match_partial_Some [OF Some] obtain key0 where
        k0: "(key0, w) \<in> set SUPPORTED_LANGUAGES" and rel0: "prefix key0 x \<or> prefix x key0"
        by blast
      have same: "w = v" if "x \<noteq> []" and kv: "(key, v) \<in> set SUPPORTED_LANGUAGES"
        and rel: "prefix key x \<or> prefix x key" for key v
      proof -
        from prefix_related_hd [OF \<open>x \<noteq> []\<close> table_keys_nonempty [OF kv] rel]
          prefix_related_hd [OF \<open>x \<noteq> []\<close> table_keys_nonempty [OF k0] rel0]
        have "hd key0 = hd key" by simp
        from table_first_char [OF k0 kv this] show ?thesis .
      qed
      have empty: "w = lit ''en''" if "x = []"
        using Some that by (simp add: SUPPORTED_LANGUAGES_def)
      have nomatch: "w = lit ''en''"
        if "\<forall>(key, v) \<in> set SUPPORTED_LANGUAGES. \<not> prefix key x \<and> \<not> prefix x key"
        using that k0 rel0 by blast
      from res None False table_values [OF k0] same empty nomatch show ?thesis
        by (simp add: x_def [symmetric]) blast
    qed
  qed
qed

lemma french_nonempty: "lit ''French'' \<noteq> []"
  by code_simp

lemma french_exact:
  "map_of SUPPORTED_LANGUAGES (str_strip (str_lower (lit ''French''))) = Some (lit ''fr'')"
  by code_simp

lemma jp_nonempty: "lit '' JP-jp'' \<noteq> []"
  by code_simp

lemma jp_not_exact:
  "map_of SUPPORTED_LANGUAGES (str_strip (str_lower (lit '' JP-jp''))) = None"
  by code_simp

lemma jp_lower_nonempty: "str_strip (str_lower (lit '' JP-jp'')) \<noteq> []"
  by code_simp

lemma jp_in_table: "(lit ''jp'', lit ''ja'') \<in> set SUPPORTED_LANGUAGES"
  by code_simp

lemma jp_prefix: "prefix (lit ''jp'') (str_strip (str_lower (lit '' JP-jp'')))"
  by code_simp

theorem normalize_language_code_policy_witness:
  "lit ''French'' \<noteq> [] \<and>
   map_of SUPPORTED_LANGUAGES (str_strip (str_lower (lit ''French''))) = Some (lit ''fr'') \<and>
   normalize_language_code (lit ''French'') = Inr (lit ''fr'') \<and>
   lit '' JP-jp'' \<noteq> [] \<and>
   map_of SUPPORTED_LANGUAGES (str_strip (str_lower (lit '' JP-jp''))) = None \<and>
   str_strip (str_lower (lit '' JP-jp'')) \<noteq> [] \<and>
   (lit ''jp'', lit ''ja'') \<in> set SUPPORTED_LANGUAGES \<and>
   prefix (lit ''jp'') (str_strip (str_lower (lit '' JP-jp''))) \<and>
   normalize_language_code (lit '' JP-jp'') = Inr (lit ''ja'') \<and>
   normalize_language_code [] = Inr (lit ''en'')"
proof -
  from normalize_language_code_policy [of "lit ''French''"] obtain c where
    c: "normalize_language_code (lit ''French'') = Inr c"
    and c_exact: "lit ''French'' \<noteq> [] \<longrightarrow>
        (\<forall>v. map_of SUPPORTED_LANGUAGES (str_strip (str_lower (lit ''French''))) = Some v \<longrightarrow> c = v) \<and>
        (map_of SUPPORTED_LANGUAGES (str_strip (str_lower (lit ''French''))) = None \<longrightarrow>
           (str_strip (str_lower (lit ''French'')) \<noteq> [] \<longrightarrow>
              (\<forall>key v. (key, v) \<in> set SUPPORTED_LANGUAGES \<and>
                 (prefix key (str_strip (str_lower (lit ''French''))) \<or>
                  prefix (str_strip (str_lower (lit ''French''))) key) \<longrightarrow> c = v)) \<and>
           (str_strip (str_lower (lit ''French'')) = [] \<or>
            (\<forall>(key, v) \<in> set SUPPORTED_LANGUAGES.
               \<not> prefix key (str_strip (str_lower (lit ''French''))) \<and>
               \<not> prefix (str_strip (str_lower (lit ''French''))) key) \<longrightarrow> c = lit ''en''))"
    by (elim exE conjE) (rule that)
  from c_exact french_nonempty have "\<forall>v. map_of SUPPORTED_LANGUAGES
      (str_strip (str_lower (lit ''French''))) = Some v \<longrightarrow> c = v"
    by blast
  with french_exact have "c = lit ''fr''"
    by blast
  with c have exact: "normalize_language_code (lit ''French'') = Inr (lit ''fr'')"
    by simp
  from normalize_language_code_policy [of "lit '' JP-jp''"] obtain d where
    d: "normalize_language_code (lit '' JP-jp'') = Inr d"
    and d_partial: "lit '' JP-jp'' \<noteq> [] \<longrightarrow>
        (\<forall>v. map_of SUPPORTED_LANGUAGES (str_strip (str_lower (lit '' JP-jp''))) = Some v \<longrightarrow> d = v) \<and>
        (map_of SUPPORTED_LANGUAGES (str_strip (str_lower (lit '' JP-jp''))) = None \<longrightarrow>
           (str_strip (str_lower (lit '' JP-jp'')) \<noteq> [] \<longrightarrow>
              (\<forall>key v. (key, v) \<in> set SUPPORTED_LANGUAGES \<and>
                 (prefix key (str_strip (str_lower (lit '' JP-jp''))) \<or>
                  prefix (str_strip (str_lower (lit '' JP-jp''))) key) \<longrightarrow> d = v)) \<and>
           (str_strip (str_lower (lit '' JP-jp'')) = [] \<or>
            (\<forall>(key, v) \<in> set SUPPORTED_LANGUAGES.
               \<not> prefix key (str_strip (str_lower (lit '' JP-jp''))) \<and>
               \<not> prefix (str_strip (str_lower (lit '' JP-jp''))) key) \<longrightarrow> d = lit ''en''))"
    by (elim exE conjE) (rule that)
  note n1 = jp_nonempty and n2 = jp_not_exact and n3 = jp_lower_nonempty
    and n4 = jp_in_table and n5 = jp_prefix
  from d_partial n1 n2 n3 have "\<forall>key v. (key, v) \<in> set SUPPORTED_LANGUAGES \<and>
                 (prefix key (str_strip (str_lower (lit '' JP-jp''))) \<or>
                  prefix (str_strip (str_lower (lit '' JP-jp''))) key) \<longrightarrow> d = v"
    by blast
  then have "(lit ''jp'', lit ''ja'') \<in> set SUPPORTED_LANGUAGES \<and>
                 (prefix (lit ''jp'') (str_strip (str_lower (lit '' JP-jp''))) \<or>
                  prefix (str_strip (str_lower (lit '' JP-jp''))) (lit ''jp'')) \<longrightarrow> d = lit ''ja''"
    by blast
  with n4 n5 have "d = lit ''ja''"
    by blast
  with d have partial: "normalize_language_code (lit '' JP-jp'') = Inr (lit ''ja'')"
    by simp
  from normalize_language_code_policy [of "[]"] obtain e where
    e: "normalize_language_code [] = Inr e" and e_en: "[] = ([] :: pystr) \<longrightarrow> e = lit ''en''"
    by (elim exE conjE) (rule that)
  from e e_en have empty: "normalize_language_code [] = Inr (lit ''en'')"
    by simp
  note e1 = french_nonempty and e2 = french_exact
  from e1 e2 exact n1 n2 n3 n4 n5 partial empty show ?thesis
    by (intro conjI)
qed

end
